theory Spec2Isabelle
  imports Main
begin

section \<open>codedeploy_facts: the query handlers and their dispatch\<close>

text \<open>
  The module under study is \<^verbatim>\<open>cloud/amazon/codedeploy_facts.py\<close>. Each of its six
  handlers reads \<^verbatim>\<open>module.params\<close>, builds the keyword arguments of one CodeDeploy
  client method, calls that method and returns what it returns; \<^verbatim>\<open>main\<close> picks the
  handler from the \<^verbatim>\<open>invocations\<close> dictionary.
\<close>

subsection \<open>Python values and dictionaries\<close>

text \<open>
  The values held by \<^verbatim>\<open>module.params\<close> are strings or \<^verbatim>\<open>None\<close>. A dictionary
  is a finite map; \<^verbatim>\<open>d.get(k)\<close> yields \<^verbatim>\<open>None\<close> for a missing key.
\<close>

datatype pyval = PNone | PStr string

type_synonym pydict = "string \<rightharpoonup> pyval"

definition py_get :: "pydict \<Rightarrow> string \<Rightarrow> pyval" where
  "py_get d k = (case d k of None \<Rightarrow> PNone | Some v \<Rightarrow> v)"

text \<open>Truth value of \<^verbatim>\<open>if v:\<close>: \<^verbatim>\<open>None\<close> and the empty string are false.\<close>

fun truthy :: "pyval \<Rightarrow> bool" where
  "truthy PNone = False"
| "truthy (PStr s) = (s \<noteq> [])"

subsection \<open>Outcomes of a run\<close>

text \<open>
  A run ends in one of these ways:
  \<^item> \<^verbatim>\<open>module.fail_json(msg=...)\<close> called by this file: it reports the message and
    exits the process, so nothing after it is executed (\<open>FailJson\<close>);
  \<^item> the argument check that \<^verbatim>\<open>AnsibleModule\<close> performs from \<^verbatim>\<open>argument_spec\<close>
    refuses an argument (\<open>InvalidArgument\<close>, with the argument's name);
  \<^item> the lookup in \<^verbatim>\<open>invocations\<close> raises \<^verbatim>\<open>KeyError\<close>;
  \<^item> the client method raises an exception \<open>e\<close>, which no handler catches (\<open>Raised\<close>);
  \<^item> the client method returns \<open>results\<close> (the right injection).
  The first component of a run is the log of the client methods called, each with its
  keyword arguments.
\<close>

datatype 'e failure = FailJson string | InvalidArgument string | KeyError pyval | Raised 'e

type_synonym ('e, 'r) client = "string \<Rightarrow> pydict \<Rightarrow> 'e + 'r"

type_synonym ('e, 'r) run = "(string \<times> pydict) list \<times> ('e failure + 'r)"

definition fail_json :: "string \<Rightarrow> ('e, 'r) run" where
  "fail_json msg = ([], Inl (FailJson msg))"

text \<open>\<^verbatim>\<open>results = client.<method>(**params); return results\<close>\<close>

definition client_call :: "('e, 'r) client \<Rightarrow> string \<Rightarrow> pydict \<Rightarrow> ('e, 'r) run" where
  "client_call client method params =
     ([(method, params)],
      case client method params of Inl e \<Rightarrow> Inl (Raised e) | Inr results \<Rightarrow> Inr results)"

subsection \<open>The six handlers\<close>

definition list_applications :: "('e, 'r) client \<Rightarrow> pydict \<Rightarrow> ('e, 'r) run" where
  "list_applications client module_params =
     (let params = Map.empty;
          params = (if truthy (py_get module_params ''next_token'')
                    then params(''nextToken'' \<mapsto> py_get module_params ''next_token'')
                    else params)
      in client_call client ''list_applications'' params)"

definition list_deployment_configs :: "('e, 'r) client \<Rightarrow> pydict \<Rightarrow> ('e, 'r) run" where
  "list_deployment_configs client module_params =
     (let params = Map.empty;
          params = (if truthy (py_get module_params ''next_token'')
                    then params(''nextToken'' \<mapsto> py_get module_params ''next_token'')
                    else params)
      in client_call client ''list_deployment_configs'' params)"

definition list_deployment_groups :: "('e, 'r) client \<Rightarrow> pydict \<Rightarrow> ('e, 'r) run" where
  "list_deployment_groups client module_params =
     (let params = Map.empty in
      if truthy (py_get module_params ''application_name'') then
        (let params = params(''applicationName'' \<mapsto> py_get module_params ''application_name'');
             params = (if truthy (py_get module_params ''next_token'')
                       then params(''nextToken'' \<mapsto> py_get module_params ''next_token'')
                       else params)
         in client_call client ''list_deployment_groups'' params)
      else fail_json ''application_name is required'')"

definition list_deployment_instances :: "('e, 'r) client \<Rightarrow> pydict \<Rightarrow> ('e, 'r) run" where
  "list_deployment_instances client module_params =
     (let params = Map.empty in
      if truthy (py_get module_params ''deployment_id'') then
        (let params = params(''deploymentId'' \<mapsto> py_get module_params ''deployment_id'');
             params = (if truthy (py_get module_params ''instance_status_filter'')
                       then params(''instanceStatusFilter'' \<mapsto>
                              py_get module_params ''instance_status_filter'')
                       else params);
             params = (if truthy (py_get module_params ''next_token'')
                       then params(''nextToken'' \<mapsto> py_get module_params ''next_token'')
                       else params)
         in client_call client ''list_deployment_instances'' params)
      else fail_json ''deployment_id is required'')"

text \<open>
  The \<^verbatim>\<open>if/elif/elif\<close> chain of \<^verbatim>\<open>list_deployments\<close> either extends \<^verbatim>\<open>params\<close>,
  leaves it empty (no branch taken), or calls \<^verbatim>\<open>fail_json\<close>.
\<close>

definition list_deployments :: "('e, 'r) client \<Rightarrow> pydict \<Rightarrow> ('e, 'r) run" where
  "list_deployments client module_params =
     (let params = Map.empty in
      if truthy (py_get module_params ''deployment_group_name'')
           \<and> truthy (py_get module_params ''application_name'') then
        (let params = params(''applicationName'' \<mapsto> py_get module_params ''application_name'');
             params = params(''deploymentGroupName'' \<mapsto>
                        py_get module_params ''deployment_group_name'');
             params = (if truthy (py_get module_params ''next_token'')
                       then params(''nextToken'' \<mapsto> py_get module_params ''next_token'')
                       else params)
         in client_call client ''list_deployments'' params)
      else if truthy (py_get module_params ''deployment_group_name'')
           \<and> \<not> truthy (py_get module_params ''application_name'') then
        fail_json ''application_name is required when deployment_group_name used''
      else if \<not> truthy (py_get module_params ''deployment_group_name'')
           \<and> truthy (py_get module_params ''application_name'') then
        fail_json ''deployment_group_name is required when application_name used''
      else
        (let params = (if truthy (py_get module_params ''next_token'')
                       then params(''nextToken'' \<mapsto> py_get module_params ''next_token'')
                       else params)
         in client_call client ''list_deployments'' params))"

text \<open>
  \<^verbatim>\<open>list_on_premises_instances\<close> tests the key \<^verbatim>\<open>registration_status\<close> and then reads
  the key \<^verbatim>\<open>registration-status\<close> (with a hyphen), as the source does.
\<close>

definition list_on_premises_instances :: "('e, 'r) client \<Rightarrow> pydict \<Rightarrow> ('e, 'r) run" where
  "list_on_premises_instances client module_params =
     (let params = Map.empty;
          params = (if truthy (py_get module_params ''registration_status'')
                    then params(''registrationStatus'' \<mapsto>
                           py_get module_params ''registration-status'')
                    else params);
          params = (if truthy (py_get module_params ''next_token'')
                    then params(''nextToken'' \<mapsto> py_get module_params ''next_token'')
                    else params)
      in client_call client ''list_on_premises_instances'' params)"

subsection \<open>main: argument check, connection, dispatch\<close>

text \<open>The \<^verbatim>\<open>choices\<close> of the \<^verbatim>\<open>query\<close> entry of \<^verbatim>\<open>argument_spec\<close>.\<close>

definition query_choices :: "string list" where
  "query_choices =
     [''list_applications'', ''list_deployment_configs'', ''list_deployment_groups'',
      ''list_deployment_instances'', ''list_deployments'', ''list_on_premises_instances'']"

text \<open>
  \<^verbatim>\<open>AnsibleModule(argument_spec=...)\<close> comes from \<^verbatim>\<open>ansible.module_utils.basic\<close>, which
  is not part of this repository. Of its argument check, the part that \<^verbatim>\<open>main\<close> asks for
  with constraints is modelled: \<^verbatim>\<open>query\<close> is declared with \<^verbatim>\<open>required=True\<close> and with
  \<^verbatim>\<open>choices\<close>. The entries \<^verbatim>\<open>next_token\<close>, \<^verbatim>\<open>application_name\<close>, \<^verbatim>\<open>deployment_id\<close>,
  \<^verbatim>\<open>deployment_group_name\<close> and \<^verbatim>\<open>registration_status\<close> are declared with no constraint
  (\<^verbatim>\<open>instance_status_filter\<close> is read by a handler but not declared). Arguments that
  pass are handed on as \<^verbatim>\<open>module.params\<close>; what else \<^verbatim>\<open>AnsibleModule\<close> does with its
  arguments is outside this model.
\<close>

definition AnsibleModule :: "pydict \<Rightarrow> 'e failure + pydict" where
  "AnsibleModule args =
     (case py_get args ''query'' of
        PNone \<Rightarrow> Inl (InvalidArgument ''query'')
      | PStr q \<Rightarrow> if q \<in> set query_choices then Inr args else Inl (InvalidArgument ''query''))"

text \<open>The dictionary \<^verbatim>\<open>invocations\<close> of \<^verbatim>\<open>main\<close>.\<close>

definition invocations :: "string \<rightharpoonup> (('e, 'r) client \<Rightarrow> pydict \<Rightarrow> ('e, 'r) run)" where
  "invocations =
     [''list_applications'' \<mapsto> list_applications,
      ''list_deployment_configs'' \<mapsto> list_deployment_configs,
      ''list_deployment_groups'' \<mapsto> list_deployment_groups,
      ''list_deployment_instances'' \<mapsto> list_deployment_instances,
      ''list_deployments'' \<mapsto> list_deployments,
      ''list_on_premises_instances'' \<mapsto> list_on_premises_instances]"

text \<open>
  \<^verbatim>\<open>results = invocations[module.params.get('query')](codedeploy, module)\<close> followed by
  \<^verbatim>\<open>module.exit_json(**results)\<close>: a key that is not in the dictionary raises
  \<^verbatim>\<open>KeyError\<close>; otherwise the run is the handler's, and its \<open>Inr results\<close> is what
  \<^verbatim>\<open>exit_json\<close> receives.
\<close>

definition dispatch :: "('e, 'r) client \<Rightarrow> pydict \<Rightarrow> ('e, 'r) run" where
  "dispatch codedeploy module_params =
     (case py_get module_params ''query'' of
        PNone \<Rightarrow> ([], Inl (KeyError PNone))
      | PStr q \<Rightarrow>
          (case invocations q of
             None \<Rightarrow> ([], Inl (KeyError (PStr q)))
           | Some handler \<Rightarrow> handler codedeploy module_params))"

text \<open>
  \<^verbatim>\<open>main\<close>. The import flags and the outcome of the connection set-up
  (\<^verbatim>\<open>get_aws_connection_info\<close>, \<^verbatim>\<open>boto3_conn\<close>) are parameters: \<open>Inl e\<close> stands for
  \<^verbatim>\<open>NoAuthHandlerFound\<close> with text \<open>e\<close>, \<open>Inr codedeploy\<close> for the client obtained.
\<close>

definition main ::
  "bool \<Rightarrow> bool \<Rightarrow> string + ('e, 'r) client \<Rightarrow> pydict \<Rightarrow> ('e, 'r) run" where
  "main HAS_BOTO HAS_BOTO3 connection args =
     (case AnsibleModule args of
        Inl f \<Rightarrow> ([], Inl f)
      | Inr module_params \<Rightarrow>
          if \<not> (HAS_BOTO \<or> HAS_BOTO3) then fail_json ''json and boto/boto3 is required.''
          else
            (case connection of
               Inl e \<Rightarrow> fail_json (''Can'' @ [CHR 0x27] @ ''t authorize connection - '' @ e)
             | Inr codedeploy \<Rightarrow> dispatch codedeploy module_params))"

section \<open>Properties\<close>

subsection \<open>Auxiliary facts about the dispatch\<close>

lemma invocations_Some:
  "invocations q = Some h \<Longrightarrow>
     (q = ''list_applications'' \<and> h = list_applications) \<or>
     (q = ''list_deployment_configs'' \<and> h = list_deployment_configs) \<or>
     (q = ''list_deployment_groups'' \<and> h = list_deployment_groups) \<or>
     (q = ''list_deployment_instances'' \<and> h = list_deployment_instances) \<or>
     (q = ''list_deployments'' \<and> h = list_deployments) \<or>
     (q = ''list_on_premises_instances'' \<and> h = list_on_premises_instances)"
  by (auto simp: invocations_def split: if_splits)

text \<open>
  A handler has two kinds of run: \<^verbatim>\<open>fail_json\<close> with nothing called, or one call of
  the client method that carries the handler's own name.
\<close>

lemma handler_cases:
  assumes "invocations q = Some h"
  shows "(\<exists>msg. h client mp = ([], Inl (FailJson msg))) \<or>
         (\<exists>kw. h client mp = client_call client q kw)"
  using invocations_Some[OF assms]
  by (elim disjE conjE; hypsubst;
      simp add: list_applications_def list_deployment_configs_def list_deployment_groups_def
        list_deployment_instances_def list_deployments_def list_on_premises_instances_def
        fail_json_def Let_def; blast)

lemma dispatch_cases:
  fixes client :: "('e, 'r) client"
  shows "(\<exists>f. dispatch client mp = ([], Inl f) \<and> (\<forall>e. f \<noteq> Raised e)) \<or>
         (\<exists>method kw. dispatch client mp = client_call client method kw)"
proof (cases "py_get mp ''query''")
  case PNone
  then show ?thesis by (simp add: dispatch_def)
next
  case (PStr q)
  show ?thesis
  proof (cases "invocations q :: (('e, 'r) client \<Rightarrow> pydict \<Rightarrow> ('e, 'r) run) option")
    case None
    with PStr show ?thesis by (simp add: dispatch_def)
  next
    case (Some h)
    from handler_cases[OF Some, of client mp] PStr Some show ?thesis
      by (auto simp: dispatch_def)
  qed
qed

lemma main_cases:
  fixes conn :: "string + ('e, 'r) client"
  shows "(\<exists>f. main b b3 conn args = ([], Inl f) \<and> (\<forall>e. f \<noteq> Raised e)) \<or>
         (\<exists>client method kw.
            conn = Inr client \<and> main b b3 conn args = client_call client method kw)"
proof (cases "AnsibleModule args :: 'e failure + pydict")
  case (Inl f)
  then have "\<forall>e. f \<noteq> Raised e"
    by (auto simp: AnsibleModule_def split: pyval.splits if_splits)
  with Inl show ?thesis by (simp add: main_def)
next
  case (Inr module_params)
  show ?thesis
  proof (cases "b \<or> b3")
    case False
    with Inr show ?thesis by (simp add: main_def fail_json_def)
  next
    case True
    show ?thesis
    proof (cases conn)
      case (Inl e)
      with Inr True show ?thesis by (simp add: main_def fail_json_def)
    next
      case client: (Inr client)
      from dispatch_cases[of client module_params] Inr True client show ?thesis
        by (auto simp: main_def)
    qed
  qed
qed

lemma client_call_simps:
  "fst (client_call client method kw) = [(method, kw)]"
  "snd (client_call client method kw) = Inl f \<longleftrightarrow>
     (\<exists>e. client method kw = Inl e \<and> f = Raised e)"
  "snd (client_call client method kw) = Inr r \<longleftrightarrow> client method kw = Inr r"
  by (auto simp: client_call_def split: sum.splits)

text \<open>
  Once the argument check has passed, the imports are there and the connection is made,
  \<^verbatim>\<open>main\<close> is the dispatch.
\<close>

lemma main_dispatch:
  assumes "py_get args ''query'' = PStr q" and "q \<in> set query_choices" and "b \<or> b3"
  shows "main b b3 (Inr client) args = dispatch client args"
  using assms by (auto simp: main_def AnsibleModule_def)

subsection \<open>list_deployments: the linked pair\<close>

text \<open>
  C1. In \<^verbatim>\<open>list_deployments\<close>, with "present" read as the source tests it (the value is
  neither \<^verbatim>\<open>None\<close> nor the empty string): when \<^verbatim>\<open>application_name\<close> and
  \<^verbatim>\<open>deployment_group_name\<close> are both present, the client is called with exactly
  \<^verbatim>\<open>applicationName\<close> and \<^verbatim>\<open>deploymentGroupName\<close> holding the given values, and
  with \<^verbatim>\<open>nextToken\<close> only if \<^verbatim>\<open>next_token\<close> is present; when both are absent, the
  client is called and neither of the two keys is sent; when only \<^verbatim>\<open>application_name\<close>
  is present, the run fails with a message that asks for \<^verbatim>\<open>deployment_group_name\<close>;
  when only \<^verbatim>\<open>deployment_group_name\<close> is present, it fails with a message that asks
  for \<^verbatim>\<open>application_name\<close>. A failing run calls nothing.
\<close>

theorem list_deployments_linked_pair:
  "(truthy (py_get mp ''application_name'') \<and> truthy (py_get mp ''deployment_group_name'') \<longrightarrow>
      list_deployments client mp =
        client_call client ''list_deployments''
          (if truthy (py_get mp ''next_token'')
           then [''applicationName'' \<mapsto> py_get mp ''application_name'',
                 ''deploymentGroupName'' \<mapsto> py_get mp ''deployment_group_name'',
                 ''nextToken'' \<mapsto> py_get mp ''next_token'']
           else [''applicationName'' \<mapsto> py_get mp ''application_name'',
                 ''deploymentGroupName'' \<mapsto> py_get mp ''deployment_group_name''])) \<and>
   (\<not> truthy (py_get mp ''application_name'') \<and>
    \<not> truthy (py_get mp ''deployment_group_name'') \<longrightarrow>
      list_deployments client mp =
        client_call client ''list_deployments''
          (if truthy (py_get mp ''next_token'')
           then [''nextToken'' \<mapsto> py_get mp ''next_token'']
           else Map.empty)) \<and>
   (truthy (py_get mp ''application_name'') \<and>
    \<not> truthy (py_get mp ''deployment_group_name'') \<longrightarrow>
      list_deployments client mp =
        ([], Inl (FailJson ''deployment_group_name is required when application_name used''))) \<and>
   (\<not> truthy (py_get mp ''application_name'') \<and>
    truthy (py_get mp ''deployment_group_name'') \<longrightarrow>
      list_deployments client mp =
        ([], Inl (FailJson ''application_name is required when deployment_group_name used'')))"
  by (simp add: list_deployments_def fail_json_def Let_def)

theorem list_deployments_linked_pair_witness:
  "list_deployments (\<lambda>method params. Inr params :: string + pydict)
     [''application_name'' \<mapsto> PStr ''TestApplication'',
      ''deployment_group_name'' \<mapsto> PStr ''Production''] =
     ([(''list_deployments'',
        [''applicationName'' \<mapsto> PStr ''TestApplication'',
         ''deploymentGroupName'' \<mapsto> PStr ''Production''])],
      Inr [''applicationName'' \<mapsto> PStr ''TestApplication'',
           ''deploymentGroupName'' \<mapsto> PStr ''Production'']) \<and>
   list_deployments (\<lambda>method params. Inr params :: string + pydict)
     [''next_token'' \<mapsto> PStr ''TOKEN123''] =
     ([(''list_deployments'', [''nextToken'' \<mapsto> PStr ''TOKEN123''])],
      Inr [''nextToken'' \<mapsto> PStr ''TOKEN123'']) \<and>
   list_deployments (\<lambda>method params. Inr params :: string + pydict)
     [''application_name'' \<mapsto> PStr ''TestApplication''] =
     ([], Inl (FailJson ''deployment_group_name is required when application_name used'')) \<and>
   list_deployments (\<lambda>method params. Inr params :: string + pydict)
     [''deployment_group_name'' \<mapsto> PStr ''Production''] =
     ([], Inl (FailJson ''application_name is required when deployment_group_name used''))"
  using
    list_deployments_linked_pair
      [where client = "\<lambda>method params. Inr params :: string + pydict"
         and mp = "[''application_name'' \<mapsto> PStr ''TestApplication'',
                    ''deployment_group_name'' \<mapsto> PStr ''Production'']"]
    list_deployments_linked_pair
      [where client = "\<lambda>method params. Inr params :: string + pydict"
         and mp = "[''next_token'' \<mapsto> PStr ''TOKEN123'']"]
    list_deployments_linked_pair
      [where client = "\<lambda>method params. Inr params :: string + pydict"
         and mp = "[''application_name'' \<mapsto> PStr ''TestApplication'']"]
    list_deployments_linked_pair
      [where client = "\<lambda>method params. Inr params :: string + pydict"
         and mp = "[''deployment_group_name'' \<mapsto> PStr ''Production'']"]
  by (simp add: py_get_def client_call_def)

subsection \<open>A request that names only the query\<close>

text \<open>
  C2. When \<^verbatim>\<open>query\<close> is the only field that is set, \<^verbatim>\<open>list_applications\<close>,
  \<^verbatim>\<open>list_deployment_configs\<close> and \<^verbatim>\<open>list_on_premises_instances\<close> call their client
  method with no keyword argument, while \<^verbatim>\<open>list_deployment_groups\<close> fails for the
  missing \<^verbatim>\<open>application_name\<close> and \<^verbatim>\<open>list_deployment_instances\<close> for the missing
  \<^verbatim>\<open>deployment_id\<close>, both without calling the client.
\<close>

theorem query_only:
  assumes "\<forall>k. k \<noteq> ''query'' \<longrightarrow> py_get mp k = PNone"
  shows
   "(py_get mp ''query'' = PStr ''list_applications'' \<longrightarrow>
       dispatch client mp = client_call client ''list_applications'' Map.empty) \<and>
    (py_get mp ''query'' = PStr ''list_deployment_configs'' \<longrightarrow>
       dispatch client mp = client_call client ''list_deployment_configs'' Map.empty) \<and>
    (py_get mp ''query'' = PStr ''list_on_premises_instances'' \<longrightarrow>
       dispatch client mp = client_call client ''list_on_premises_instances'' Map.empty) \<and>
    (py_get mp ''query'' = PStr ''list_deployment_groups'' \<longrightarrow>
       dispatch client mp = ([], Inl (FailJson ''application_name is required''))) \<and>
    (py_get mp ''query'' = PStr ''list_deployment_instances'' \<longrightarrow>
       dispatch client mp = ([], Inl (FailJson ''deployment_id is required'')))"
  using assms
  by (simp add: dispatch_def invocations_def list_applications_def list_deployment_configs_def
      list_on_premises_instances_def list_deployment_groups_def list_deployment_instances_def
      fail_json_def Let_def)

theorem query_only_witness:
  "dispatch (\<lambda>method params. Inr params :: string + pydict)
     [''query'' \<mapsto> PStr ''list_applications''] =
     ([(''list_applications'', Map.empty)], Inr Map.empty) \<and>
   dispatch (\<lambda>method params. Inr params :: string + pydict)
     [''query'' \<mapsto> PStr ''list_deployment_configs''] =
     ([(''list_deployment_configs'', Map.empty)], Inr Map.empty) \<and>
   dispatch (\<lambda>method params. Inr params :: string + pydict)
     [''query'' \<mapsto> PStr ''list_on_premises_instances''] =
     ([(''list_on_premises_instances'', Map.empty)], Inr Map.empty) \<and>
   dispatch (\<lambda>method params. Inr params :: string + pydict)
     [''query'' \<mapsto> PStr ''list_deployment_groups''] =
     ([], Inl (FailJson ''application_name is required'')) \<and>
   dispatch (\<lambda>method params. Inr params :: string + pydict)
     [''query'' \<mapsto> PStr ''list_deployment_instances''] =
     ([], Inl (FailJson ''deployment_id is required''))"
  using
    query_only [where client = "\<lambda>method params. Inr params :: string + pydict"
                  and mp = "[''query'' \<mapsto> PStr ''list_applications'']"]
    query_only [where client = "\<lambda>method params. Inr params :: string + pydict"
                  and mp = "[''query'' \<mapsto> PStr ''list_deployment_configs'']"]
    query_only [where client = "\<lambda>method params. Inr params :: string + pydict"
                  and mp = "[''query'' \<mapsto> PStr ''list_on_premises_instances'']"]
    query_only [where client = "\<lambda>method params. Inr params :: string + pydict"
                  and mp = "[''query'' \<mapsto> PStr ''list_deployment_groups'']"]
    query_only [where client = "\<lambda>method params. Inr params :: string + pydict"
                  and mp = "[''query'' \<mapsto> PStr ''list_deployment_instances'']"]
  by (simp add: py_get_def client_call_def)

subsection \<open>The continuation token\<close>



subsection \<open>list_on_premises_instances: the registration status\<close>

text \<open>
  C4. A request for \<^verbatim>\<open>list_on_premises_instances\<close> whose \<^verbatim>\<open>registration_status\<close> is
  \<^verbatim>\<open>"Registered"\<close> should send \<^verbatim>\<open>registrationStatus = "Registered"\<close>. The handler
  tests \<^verbatim>\<open>registration_status\<close> but fetches the value under \<^verbatim>\<open>registration-status\<close>,
  a key the request does not hold: what it sends is \<^verbatim>\<open>registrationStatus = None\<close>.
\<close>

theorem registration_status_sent_as_None:
  "dispatch client [''query'' \<mapsto> PStr ''list_on_premises_instances'',
                    ''registration_status'' \<mapsto> PStr ''Registered''] =
     client_call client ''list_on_premises_instances'' [''registrationStatus'' \<mapsto> PNone]"
  by (simp add: dispatch_def invocations_def list_on_premises_instances_def py_get_def Let_def)

subsection \<open>list_deployment_instances: the status filter\<close>



subsection \<open>Failures and results\<close>

text \<open>
  C6. Every check is made before the client is called. Whenever a check fails (the
  required \<^verbatim>\<open>application_name\<close> of \<^verbatim>\<open>list_deployment_groups\<close> or
  \<^verbatim>\<open>deployment_id\<close> of \<^verbatim>\<open>list_deployment_instances\<close> is missing, or exactly one
  of the two linked fields of \<^verbatim>\<open>list_deployments\<close> is present) the run ends in
  \<^verbatim>\<open>fail_json\<close>; and a run that ends in \<^verbatim>\<open>fail_json\<close>, of the dispatch on any
  \<^verbatim>\<open>module.params\<close> or of \<^verbatim>\<open>main\<close> as a whole, has called no client method.
\<close>

theorem fail_json_before_client_call:
  fixes client :: "('e, 'r) client" and conn :: "string + ('e, 'r) client"
  shows
   "(snd (dispatch client mp) = Inl (FailJson msg) \<longrightarrow> fst (dispatch client mp) = []) \<and>
    (snd (main b b3 conn args) = Inl (FailJson msg) \<longrightarrow> fst (main b b3 conn args) = []) \<and>
    (py_get mp ''query'' = PStr ''list_deployment_groups'' \<and>
     \<not> truthy (py_get mp ''application_name'') \<longrightarrow>
       dispatch client mp = ([], Inl (FailJson ''application_name is required''))) \<and>
    (py_get mp ''query'' = PStr ''list_deployment_instances'' \<and>
     \<not> truthy (py_get mp ''deployment_id'') \<longrightarrow>
       dispatch client mp = ([], Inl (FailJson ''deployment_id is required''))) \<and>
    (py_get mp ''query'' = PStr ''list_deployments'' \<and>
     truthy (py_get mp ''application_name'') \<noteq> truthy (py_get mp ''deployment_group_name'') \<longrightarrow>
       (\<exists>text. dispatch client mp = ([], Inl (FailJson text))))"
proof -
  have no_call: "snd (dispatch client mp) = Inl (FailJson msg) \<longrightarrow> fst (dispatch client mp) = []"
    using dispatch_cases[of client mp] by (auto simp: client_call_simps)
  have no_call_main:
    "snd (main b b3 conn args) = Inl (FailJson msg) \<longrightarrow> fst (main b b3 conn args) = []"
    using main_cases[of b b3 conn args] by (auto simp: client_call_simps)
  have groups: "dispatch client mp = ([], Inl (FailJson ''application_name is required''))"
    if "py_get mp ''query'' = PStr ''list_deployment_groups''"
      and "\<not> truthy (py_get mp ''application_name'')"
    using that
    by (simp add: dispatch_def invocations_def list_deployment_groups_def fail_json_def)
  have instances: "dispatch client mp = ([], Inl (FailJson ''deployment_id is required''))"
    if "py_get mp ''query'' = PStr ''list_deployment_instances''"
      and "\<not> truthy (py_get mp ''deployment_id'')"
    using that
    by (simp add: dispatch_def invocations_def list_deployment_instances_def fail_json_def)
  have deployments: "\<exists>text. dispatch client mp = ([], Inl (FailJson text))"
    if "py_get mp ''query'' = PStr ''list_deployments''"
      and "truthy (py_get mp ''application_name'') \<noteq> truthy (py_get mp ''deployment_group_name'')"
    using that
    by (auto simp: dispatch_def invocations_def list_deployments_def fail_json_def)
  from no_call no_call_main groups instances deployments show ?thesis
    by simp
qed

theorem fail_json_before_client_call_witness:
  "snd (dispatch (\<lambda>method params. Inr params :: string + pydict)
          [''query'' \<mapsto> PStr ''list_deployment_groups'']) =
     Inl (FailJson ''application_name is required'') \<and>
   fst (dispatch (\<lambda>method params. Inr params :: string + pydict)
          [''query'' \<mapsto> PStr ''list_deployment_groups'']) = [] \<and>
   snd (main True True (Inr (\<lambda>method params. Inr params :: string + pydict))
          [''query'' \<mapsto> PStr ''list_deployments'',
           ''application_name'' \<mapsto> PStr ''TestApplication'']) =
     Inl (FailJson ''deployment_group_name is required when application_name used'') \<and>
   fst (main True True (Inr (\<lambda>method params. Inr params :: string + pydict))
          [''query'' \<mapsto> PStr ''list_deployments'',
           ''application_name'' \<mapsto> PStr ''TestApplication'']) = [] \<and>
   dispatch (\<lambda>method params. Inr params :: string + pydict)
     [''query'' \<mapsto> PStr ''list_deployment_instances'',
      ''next_token'' \<mapsto> PStr ''TOKEN123''] =
     ([], Inl (FailJson ''deployment_id is required'')) \<and>
   (\<exists>text. dispatch (\<lambda>method params. Inr params :: string + pydict)
             [''query'' \<mapsto> PStr ''list_deployments'',
              ''application_name'' \<mapsto> PStr ''TestApplication''] =
           ([], Inl (FailJson text)))"
proof -
  let ?client = "\<lambda>method params. Inr params :: string + pydict"
  let ?groups = "[''query'' \<mapsto> PStr ''list_deployment_groups'']"
  let ?instances = "[''query'' \<mapsto> PStr ''list_deployment_instances'',
                     ''next_token'' \<mapsto> PStr ''TOKEN123'']"
  let ?deployments = "[''query'' \<mapsto> PStr ''list_deployments'',
                       ''application_name'' \<mapsto> PStr ''TestApplication'']"
  have m: "snd (main True True (Inr ?client) ?deployments) =
             Inl (FailJson ''deployment_group_name is required when application_name used'')"
    by (simp add: main_def AnsibleModule_def query_choices_def dispatch_def invocations_def
        list_deployments_def fail_json_def py_get_def)
  from m
    fail_json_before_client_call
      [where client = ?client and mp = ?groups
         and msg = "''application_name is required''"]
    fail_json_before_client_call
      [where client = ?client and mp = ?instances]
    fail_json_before_client_call
      [where client = ?client and mp = ?deployments
         and conn = "Inr ?client" and b = True and ?b3.0 = True and args = ?deployments
         and msg = "''deployment_group_name is required when application_name used''"]
  show ?thesis by (simp add: py_get_def)
qed

text \<open>
  C7. When the client method raises, the exception it raised is what the run ends with,
  unchanged, and no result is handed to \<^verbatim>\<open>exit_json\<close>: no handler and no part of
  \<^verbatim>\<open>main\<close> catches it.
\<close>

theorem client_error_propagates:
  fixes client :: "('e, 'r) client"
  shows
   "((meth, kw) \<in> set (fst (dispatch client mp)) \<and> client meth kw = Inl e \<longrightarrow>
       snd (dispatch client mp) = Inl (Raised e)) \<and>
    ((meth, kw) \<in> set (fst (main b b3 (Inr client) args)) \<and> client meth kw = Inl e \<longrightarrow>
       snd (main b b3 (Inr client) args) = Inl (Raised e))"
  using dispatch_cases[of client mp] main_cases[of b b3 "Inr client" args]
  by (auto simp: client_call_simps)

theorem client_error_propagates_witness:
  "fst (dispatch (\<lambda>method params. Inl ''AccessDeniedException'' :: string + pydict)
          [''query'' \<mapsto> PStr ''list_applications'']) = [(''list_applications'', Map.empty)] \<and>
   snd (dispatch (\<lambda>method params. Inl ''AccessDeniedException'' :: string + pydict)
          [''query'' \<mapsto> PStr ''list_applications'']) =
     Inl (Raised ''AccessDeniedException'') \<and>
   fst (main True True (Inr (\<lambda>method params. Inl ''AccessDeniedException'' :: string + pydict))
          [''query'' \<mapsto> PStr ''list_applications'']) = [(''list_applications'', Map.empty)] \<and>
   snd (main True True (Inr (\<lambda>method params. Inl ''AccessDeniedException'' :: string + pydict))
          [''query'' \<mapsto> PStr ''list_applications'']) =
     Inl (Raised ''AccessDeniedException'')"
proof -
  let ?client = "\<lambda>method params. Inl ''AccessDeniedException'' :: string + pydict"
  let ?mp = "[''query'' \<mapsto> PStr ''list_applications'']"
  have d: "fst (dispatch ?client ?mp) = [(''list_applications'', Map.empty)]"
    by (simp add: dispatch_def invocations_def list_applications_def client_call_def
        py_get_def)
  have m: "fst (main True True (Inr ?client) ?mp) = [(''list_applications'', Map.empty)]"
    by (simp add: main_def AnsibleModule_def query_choices_def dispatch_def invocations_def
        list_applications_def client_call_def py_get_def)
  from d m
    client_error_propagates
      [where client = ?client and mp = ?mp and args = ?mp and b = True and ?b3.0 = True
         and meth = "''list_applications''" and kw = Map.empty
         and e = "''AccessDeniedException''"]
  show ?thesis by simp
qed

text \<open>
  C8. A \<^verbatim>\<open>query\<close> outside the six choices never reaches a handler or the client:
  the argument check of \<^verbatim>\<open>main\<close> refuses it, and the lookup in \<^verbatim>\<open>invocations\<close>, were
  it reached with such a value, raises \<^verbatim>\<open>KeyError\<close> with nothing called. The same holds
  for a missing \<^verbatim>\<open>query\<close>. For a \<^verbatim>\<open>query\<close> among the six choices the lookup finds a
  handler, the dispatch is that handler's run, and \<^verbatim>\<open>KeyError\<close> cannot occur.
\<close>

theorem unknown_query_rejected:
  fixes client :: "('e, 'r) client" and conn :: "string + ('e, 'r) client"
  shows
   "(py_get args ''query'' = PStr q \<and> q \<notin> set query_choices \<longrightarrow>
       main b b3 conn args = ([], Inl (InvalidArgument ''query'')) \<and>
       dispatch client args = ([], Inl (KeyError (PStr q)))) \<and>
    (py_get args ''query'' = PNone \<longrightarrow>
       main b b3 conn args = ([], Inl (InvalidArgument ''query'')) \<and>
       dispatch client args = ([], Inl (KeyError PNone))) \<and>
    (py_get args ''query'' = PStr q \<and> q \<in> set query_choices \<longrightarrow>
       (\<exists>handler. invocations q = Some handler \<and>
                  dispatch client args = handler client args) \<and>
       (\<forall>v. snd (dispatch client args) \<noteq> Inl (KeyError v)))"
proof -
  have unknown: "main b b3 conn args = ([], Inl (InvalidArgument ''query'')) \<and>
      dispatch client args = ([], Inl (KeyError (PStr q)))"
    if "py_get args ''query'' = PStr q" and "q \<notin> set query_choices"
  proof -
    from that(2)
    have "(invocations q :: (('e, 'r) client \<Rightarrow> pydict \<Rightarrow> ('e, 'r) run) option) = None"
      by (auto simp: invocations_def query_choices_def)
    with that show ?thesis
      by (simp add: main_def AnsibleModule_def dispatch_def)
  qed
  have missing: "main b b3 conn args = ([], Inl (InvalidArgument ''query'')) \<and>
      dispatch client args = ([], Inl (KeyError PNone))"
    if "py_get args ''query'' = PNone"
    using that by (simp add: main_def AnsibleModule_def dispatch_def)
  have known: "(\<exists>handler. invocations q = Some handler \<and>
                  dispatch client args = handler client args) \<and>
      (\<forall>v. snd (dispatch client args) \<noteq> Inl (KeyError v))"
    if q: "py_get args ''query'' = PStr q" and "q \<in> set query_choices"
  proof -
    from that(2) obtain h :: "('e, 'r) client \<Rightarrow> pydict \<Rightarrow> ('e, 'r) run"
      where h: "invocations q = Some h"
      by (auto simp: invocations_def query_choices_def)
    with q have d: "dispatch client args = h client args"
      by (simp add: dispatch_def)
    from handler_cases[OF h, of client args]
    have "\<forall>v. snd (h client args) \<noteq> Inl (KeyError v)"
      by (auto simp: client_call_simps)
    with h d show ?thesis by simp
  qed
  from unknown missing known show ?thesis by blast
qed

theorem unknown_query_rejected_witness:
  "''list_foo'' \<notin> set query_choices \<and>
   main True True (Inr (\<lambda>method params. Inr params :: string + pydict))
     [''query'' \<mapsto> PStr ''list_foo''] = ([], Inl (InvalidArgument ''query'')) \<and>
   dispatch (\<lambda>method params. Inr params :: string + pydict)
     [''query'' \<mapsto> PStr ''list_foo''] = ([], Inl (KeyError (PStr ''list_foo''))) \<and>
   main True True (Inr (\<lambda>method params. Inr params :: string + pydict)) Map.empty =
     ([], Inl (InvalidArgument ''query'')) \<and>
   ''list_deployments'' \<in> set query_choices \<and>
   (\<exists>handler. invocations ''list_deployments'' = Some handler \<and>
      dispatch (\<lambda>method params. Inr params :: string + pydict)
        [''query'' \<mapsto> PStr ''list_deployments''] =
      handler (\<lambda>method params. Inr params) [''query'' \<mapsto> PStr ''list_deployments''])"
proof -
  let ?client = "\<lambda>method params. Inr params :: string + pydict"
  have foo: "''list_foo'' \<notin> set query_choices"
    and deployments: "''list_deployments'' \<in> set query_choices"
    by (simp_all add: query_choices_def)
  from foo deployments
    unknown_query_rejected
      [where client = ?client and conn = "Inr ?client" and b = True and ?b3.0 = True
         and args = "[''query'' \<mapsto> PStr ''list_foo'']" and q = "''list_foo''"]
    unknown_query_rejected
      [where client = ?client and conn = "Inr ?client" and b = True and ?b3.0 = True
         and args = Map.empty and q = "''list_foo''"]
    unknown_query_rejected
      [where client = ?client and conn = "Inr ?client" and b = True and ?b3.0 = True
         and args = "[''query'' \<mapsto> PStr ''list_deployments'']"
         and q = "''list_deployments''"]
  show ?thesis by (simp add: py_get_def)
qed

text \<open>
  C9. A run that ends with a result ends with exactly what the one client call returned:
  the handler returns \<^verbatim>\<open>results\<close> as it received it and \<^verbatim>\<open>main\<close> hands it to
  \<^verbatim>\<open>exit_json\<close> as it is. Conversely, when the client call returns \<open>r\<close>, the run
  ends with \<open>r\<close>.
\<close>

theorem result_passed_through:
  fixes client :: "('e, 'r) client" and conn :: "string + ('e, 'r) client"
  shows
   "(snd (dispatch client mp) = Inr r \<longrightarrow>
       (\<exists>meth kw. fst (dispatch client mp) = [(meth, kw)] \<and> client meth kw = Inr r)) \<and>
    (snd (main b b3 conn args) = Inr r \<longrightarrow>
       (\<exists>client meth kw. conn = Inr client \<and>
          fst (main b b3 conn args) = [(meth, kw)] \<and> client meth kw = Inr r)) \<and>
    ((meth, kw) \<in> set (fst (dispatch client mp)) \<and> client meth kw = Inr r \<longrightarrow>
       snd (dispatch client mp) = Inr r) \<and>
    ((meth, kw) \<in> set (fst (main b b3 (Inr client) args)) \<and> client meth kw = Inr r \<longrightarrow>
       snd (main b b3 (Inr client) args) = Inr r)"
  using dispatch_cases[of client mp] main_cases[of b b3 conn args]
    main_cases[of b b3 "Inr client" args]
  by (auto simp: client_call_simps)

theorem result_passed_through_witness:
  "fst (main True True
          (Inr (\<lambda>method params. Inr [''applications'' \<mapsto> PStr ''TestApplication'']
                  :: string + pydict))
          [''query'' \<mapsto> PStr ''list_applications'']) = [(''list_applications'', Map.empty)] \<and>
   snd (main True True
          (Inr (\<lambda>method params. Inr [''applications'' \<mapsto> PStr ''TestApplication'']
                  :: string + pydict))
          [''query'' \<mapsto> PStr ''list_applications'']) =
     Inr [''applications'' \<mapsto> PStr ''TestApplication'']"
proof -
  let ?client = "\<lambda>method params. Inr [''applications'' \<mapsto> PStr ''TestApplication'']
                   :: string + pydict"
  let ?mp = "[''query'' \<mapsto> PStr ''list_applications'']"
  have m: "fst (main True True (Inr ?client) ?mp) = [(''list_applications'', Map.empty)]"
    by (simp add: main_def AnsibleModule_def query_choices_def dispatch_def invocations_def
        list_applications_def client_call_def py_get_def)
  from m
    result_passed_through
      [where client = ?client and conn = "Inr ?client" and mp = ?mp and args = ?mp
         and b = True and ?b3.0 = True and meth = "''list_applications''"
         and kw = Map.empty and r = "[''applications'' \<mapsto> PStr ''TestApplication'']"]
  show ?thesis by simp
qed

subsection \<open>Empty strings\<close>

text \<open>
  C10. For every handler, a parameter whose value is the empty string has the effect of
  a parameter that is not there (or is \<^verbatim>\<open>None\<close>): the run is the same. The key
  \<^verbatim>\<open>registration-status\<close>, which is no parameter of the module and is read by
  \<^verbatim>\<open>list_on_premises_instances\<close> without a test, is left aside.
\<close>

theorem empty_string_as_absent:
  assumes "invocations q = Some h"
    and "k \<noteq> ''registration-status''"
    and "mp k = Some (PStr [])"
  shows "h client mp = h client (mp(k := None)) \<and> h client mp = h client (mp(k \<mapsto> PNone))"
  using invocations_Some[OF assms(1)] assms(2,3)
  by (auto simp: list_applications_def list_deployment_configs_def list_deployment_groups_def
      list_deployment_instances_def list_deployments_def list_on_premises_instances_def
      fail_json_def Let_def py_get_def)

theorem empty_string_as_absent_witness:
  "list_applications (\<lambda>method params. Inr params :: string + pydict)
     [''next_token'' \<mapsto> PStr ''''] =
     ([(''list_applications'', Map.empty)], Inr Map.empty) \<and>
   list_deployment_groups (\<lambda>method params. Inr params :: string + pydict)
     [''application_name'' \<mapsto> PStr ''''] =
     list_deployment_groups (\<lambda>method params. Inr params) Map.empty \<and>
   list_deployment_groups (\<lambda>method params. Inr params :: string + pydict)
     [''application_name'' \<mapsto> PStr ''''] =
     ([], Inl (FailJson ''application_name is required''))"
proof -
  let ?client = "\<lambda>method params. Inr params :: string + pydict"
  have apps: "invocations ''list_applications'' = Some list_applications"
    and groups: "invocations ''list_deployment_groups'' = Some list_deployment_groups"
    by (simp_all add: invocations_def)
  have absent:
    "list_applications ?client Map.empty = ([(''list_applications'', Map.empty)], Inr Map.empty)"
    "list_deployment_groups ?client Map.empty =
       ([], Inl (FailJson ''application_name is required''))"
    by (simp_all add: list_applications_def list_deployment_groups_def client_call_def
        fail_json_def py_get_def Let_def)
  from absent
    empty_string_as_absent
      [OF apps, where k = "''next_token''" and mp = "[''next_token'' \<mapsto> PStr '''']"
         and client = ?client]
    empty_string_as_absent
      [OF groups, where k = "''application_name''"
         and mp = "[''application_name'' \<mapsto> PStr '''']" and client = ?client]
  show ?thesis by simp
qed

end
